theory Spec2Isabelle
  imports Main
begin

section \<open>Python strings\<close>

text \<open>
  A Python \<^verbatim>\<open>str\<close> is a sequence of Unicode code points, so a string is a list of
  natural numbers. \<open>ascii\<close> turns an ASCII literal into such a string.
\<close>

type_synonym pystr = "nat list"

definition ascii :: "string \<Rightarrow> pystr" where
  "ascii s = map of_char s"

text \<open>
  \<^verbatim>\<open>str.isspace\<close> on one code point: the ASCII white space 0x09-0x0D, 0x1C-0x1F and
  0x20, and the Unicode white space 0x85, 0xA0, 0x1680, 0x2000-0x200A, 0x2028, 0x2029,
  0x202F, 0x205F, 0x3000.
\<close>

definition isspace :: "nat \<Rightarrow> bool" where
  "isspace c \<longleftrightarrow>
     (9 \<le> c \<and> c \<le> 13) \<or> (28 \<le> c \<and> c \<le> 32) \<or> c = 133 \<or> c = 160 \<or> c = 5760 \<or>
     (8192 \<le> c \<and> c \<le> 8202) \<or> c = 8232 \<or> c = 8233 \<or> c = 8239 \<or> c = 8287 \<or> c = 12288"

text \<open>\<^verbatim>\<open>s.strip()\<close>: white space removed at both ends.\<close>

definition strip :: "pystr \<Rightarrow> pystr" where
  "strip s = rev (dropWhile isspace (rev (dropWhile isspace s)))"

text \<open>\<^verbatim>\<open>sep.join(xs)\<close>.\<close>

fun join :: "pystr \<Rightarrow> pystr list \<Rightarrow> pystr" where
  "join sep [] = []"
| "join sep [x] = x"
| "join sep (x # y # ys) = x @ sep @ join sep (y # ys)"

text \<open>\<^verbatim>\<open>k in s\<close> on strings: \<open>k\<close> occurs in \<open>s\<close> as a contiguous run.\<close>

fun startswith :: "pystr \<Rightarrow> pystr \<Rightarrow> bool" where
  "startswith s [] = True"
| "startswith [] (k # ks) = False"
| "startswith (c # cs) (k # ks) = (c = k \<and> startswith cs ks)"

fun contains :: "pystr \<Rightarrow> pystr \<Rightarrow> bool" where
  "contains [] k = (k = [])"
| "contains (c # cs) k = (startswith (c # cs) k \<or> contains cs k)"

text \<open>\<^verbatim>\<open>any(k in s for k in keys)\<close>.\<close>

definition any_in :: "pystr list \<Rightarrow> pystr \<Rightarrow> bool" where
  "any_in keys s = list_ex (contains s) keys"

text \<open>\<^verbatim>\<open>str(n)\<close> for an integer: its decimal digits, with a minus sign when negative.\<close>

fun digits :: "nat \<Rightarrow> pystr" where
  "digits n = (if n < 10 then [48 + n] else digits (n div 10) @ [48 + n mod 10])"

definition str_int :: "int \<Rightarrow> pystr" where
  "str_int i = (if i < 0 then 45 # digits (nat (- i)) else digits (nat i))"

section \<open>The document tree of BeautifulSoup\<close>

text \<open>
  The tree that \<^verbatim>\<open>BeautifulSoup(html, 'html.parser')\<close> builds: a \<^verbatim>\<open>Tag\<close> has a name,
  attributes and contents; every other node is a string of one of the classes of
  \<^verbatim>\<open>NavigableString\<close>. The \<^verbatim>\<open>BeautifulSoup\<close> object itself is a \<^verbatim>\<open>Tag\<close> named
  \<^verbatim>\<open>[document]\<close>. The parser lowercases the names of tags and attributes, so names
  are compared as they stand.
\<close>

datatype string_class =
  NavigableString | CData | Comment | Declaration | Doctype | ProcessingInstruction
  | Script | Stylesheet | TemplateString | RubyTextString | RubyParenthesisString

datatype page_element =
  Tag (name: pystr) (attrs: "(pystr \<times> pystr) list") (contents: "page_element list")
  | Str string_class pystr

fun is_tag :: "page_element \<Rightarrow> bool" where
  "is_tag (Tag n a cs) = True"
| "is_tag (Str c s) = False"

fun tag_named :: "pystr list \<Rightarrow> page_element \<Rightarrow> bool" where
  "tag_named names (Tag n a cs) = (n \<in> set names)"
| "tag_named names (Str c s) = False"

definition BeautifulSoup :: "page_element list \<Rightarrow> page_element" where
  "BeautifulSoup cs = Tag (ascii ''[document]'') [] cs"

text \<open>
  An element as the code holds it: the node together with what \<^verbatim>\<open>.parent\<close> (and the
  parents above it, nearest first) and \<^verbatim>\<open>.next_siblings\<close> give.
\<close>

record element =
  el :: page_element
  parents :: "page_element list"
  next_siblings :: "page_element list"

text \<open>
  \<^verbatim>\<open>.descendants\<close>: every node below a tag in document order. The first argument is
  the chain of parents of the nodes of the list.
\<close>

fun descendants :: "page_element list \<Rightarrow> page_element list \<Rightarrow> element list" where
  "descendants ps [] = []"
| "descendants ps (Str c s # rest) =
     \<lparr>el = Str c s, parents = ps, next_siblings = rest\<rparr> # descendants ps rest"
| "descendants ps (Tag n a cs # rest) =
     \<lparr>el = Tag n a cs, parents = ps, next_siblings = rest\<rparr>
       # descendants (Tag n a cs # ps) cs @ descendants ps rest"

definition descendants_of :: "page_element \<Rightarrow> element list" where
  "descendants_of t = (case t of Tag n a cs \<Rightarrow> descendants [t] cs | Str c s \<Rightarrow> [])"

text \<open>
  The loop of \<^verbatim>\<open>_find_all\<close>: the elements of the generator that match, in order,
  stopping once \<open>limit\<close> results are there (\<open>limit = 0\<close> is Python's \<^verbatim>\<open>limit=None\<close>:
  no limit).
\<close>

fun find_all_loop :: "('a \<Rightarrow> bool) \<Rightarrow> nat \<Rightarrow> 'a list \<Rightarrow> 'a list \<Rightarrow> 'a list" where
  "find_all_loop m limit [] results = results"
| "find_all_loop m limit (i # gen) results =
     (if m i then
        (if limit \<noteq> 0 \<and> length (results @ [i]) \<ge> limit then results @ [i]
         else find_all_loop m limit gen (results @ [i]))
      else find_all_loop m limit gen results)"

text \<open>\<^verbatim>\<open>tag.find_all(names)\<close>: the tags below \<open>tag\<close> whose name is one of \<open>names\<close>.\<close>

definition find_all :: "pystr list \<Rightarrow> page_element \<Rightarrow> element list" where
  "find_all names t = find_all_loop (\<lambda>e. tag_named names (el e)) 0 (descendants_of t) []"

text \<open>\<^verbatim>\<open>tag.find(name)\<close>: \<^verbatim>\<open>find_all\<close> with limit 1, and its first result or \<^verbatim>\<open>None\<close>.\<close>

definition find_bs :: "pystr \<Rightarrow> page_element \<Rightarrow> element option" where
  "find_bs n t =
     (case find_all_loop (\<lambda>e. tag_named [n] (el e)) 1 (descendants_of t) [] of
        [] \<Rightarrow> None | r # rs \<Rightarrow> Some r)"

text \<open>
  \<^verbatim>\<open>tag.find_all(text=True)\<close>: the strings below \<open>tag\<close>, of every class (comments and
  declarations too). The loop skips an element that is falsy, which an empty string is.
\<close>

fun is_string :: "page_element \<Rightarrow> bool" where
  "is_string (Tag n a cs) = False"
| "is_string (Str c s) = (s \<noteq> [])"

definition find_all_text :: "page_element \<Rightarrow> element list" where
  "find_all_text t = find_all_loop (\<lambda>e. is_string (el e)) 0 (descendants_of t) []"

text \<open>
  \<^verbatim>\<open>e.find_next_siblings(limit=k)\<close>: with no name and no string to match, only tags
  match (the matching of Beautiful Soup 4 up to 4.12, where a string matches only a
  search for strings); the first \<open>k\<close> of the following siblings that are tags.
\<close>

definition find_next_siblings :: "nat \<Rightarrow> element \<Rightarrow> page_element list" where
  "find_next_siblings limit e = find_all_loop is_tag limit (next_siblings e) []"

text \<open>
  The classes of string a tag finds interesting, \<^verbatim>\<open>tag.interesting_string_types\<close>:
  the tree builder gives the tags \<^verbatim>\<open>rt\<close>, \<^verbatim>\<open>rp\<close>, \<^verbatim>\<open>style\<close>, \<^verbatim>\<open>script\<close> and
  \<^verbatim>\<open>template\<close> the class of the strings written inside them, and every other tag
  (the \<^verbatim>\<open>BeautifulSoup\<close> object too) \<^verbatim>\<open>NavigableString\<close> and \<^verbatim>\<open>CData\<close>.
\<close>

definition default_string_types :: "string_class list" where
  "default_string_types = [NavigableString, CData]"

definition interesting_string_types :: "pystr \<Rightarrow> string_class list" where
  "interesting_string_types n =
     (if n = ascii ''rt'' then [RubyTextString]
      else if n = ascii ''rp'' then [RubyParenthesisString]
      else if n = ascii ''style'' then [Stylesheet]
      else if n = ascii ''script'' then [Script]
      else if n = ascii ''template'' then [TemplateString]
      else default_string_types)"

fun string_class_in :: "string_class list \<Rightarrow> page_element \<Rightarrow> bool" where
  "string_class_in types (Tag n a cs) = False"
| "string_class_in types (Str c s) = (c \<in> set types)"

fun string_of :: "page_element \<Rightarrow> pystr" where
  "string_of (Tag n a cs) = []"
| "string_of (Str c s) = s"

text \<open>
  \<^verbatim>\<open>element.get_text(sep, strip=True)\<close>. On a tag: the strings below it whose class
  is one the tag finds interesting, each stripped, the empty ones dropped, joined with
  \<open>sep\<close>. On a string: the string itself, stripped, when its class is
  \<^verbatim>\<open>NavigableString\<close> or \<^verbatim>\<open>CData\<close>.
\<close>

fun all_strings :: "page_element \<Rightarrow> pystr list" where
  "all_strings (Tag n a cs) =
     filter (\<lambda>s. s \<noteq> [])
       (map (\<lambda>e. strip (string_of (el e)))
          (filter (\<lambda>e. string_class_in (interesting_string_types n) (el e))
             (descendants_of (Tag n a cs))))"
| "all_strings (Str c s) =
     (if c \<in> set default_string_types \<and> strip s \<noteq> [] then [strip s] else [])"

definition get_text :: "pystr \<Rightarrow> page_element \<Rightarrow> pystr" where
  "get_text sep t = join sep (all_strings t)"

text \<open>
  \<^verbatim>\<open>for tag in soup(names): tag.extract()\<close>: every tag with one of the names is taken
  out of the tree, with all it contains; the strings beside it stay separate strings.
\<close>

fun extract_tags :: "pystr list \<Rightarrow> page_element list \<Rightarrow> page_element list" where
  "extract_tags names [] = []"
| "extract_tags names (Str c s # rest) = Str c s # extract_tags names rest"
| "extract_tags names (Tag n a cs # rest) =
     (if n \<in> set names then extract_tags names rest
      else Tag n a (extract_tags names cs) # extract_tags names rest)"

text \<open>
  \<^verbatim>\<open>soup.select('nav a[href]')\<close>: the \<^verbatim>\<open>a\<close> tags that have an \<^verbatim>\<open>href\<close> attribute
  and a \<^verbatim>\<open>nav\<close> tag among their parents, in document order.
\<close>

text \<open>\<^verbatim>\<open>tag.get(key)\<close>: the value of the attribute, or \<^verbatim>\<open>None\<close>.\<close>

fun get_attr :: "pystr \<Rightarrow> page_element \<Rightarrow> pystr option" where
  "get_attr k (Tag n a cs) = map_of a k"
| "get_attr k (Str c s) = None"

definition select_nav_a_href :: "page_element \<Rightarrow> element list" where
  "select_nav_a_href t =
     filter (\<lambda>e. tag_named [ascii ''a''] (el e)
                 \<and> get_attr (ascii ''href'') (el e) \<noteq> None
                 \<and> list_ex (tag_named [ascii ''nav'']) (parents e))
       (descendants_of t)"

section \<open>The extractor\<close>

record nav_item =
  label :: pystr
  href :: "pystr option"

record extraction_result =
  raw_text :: pystr
  sections :: "pystr \<rightharpoonup> pystr list"
  navigation :: "nav_item list"

text \<open>
  The exceptions of Python the extractor could raise: the one of \<^verbatim>\<open>None.get_text\<close>,
  and the one of the library when its parser rejects the markup.
\<close>

datatype py_error = AttributeError | ParserRejectedMarkup

text \<open>
  The keyword lists of the source. The Cyrillic ones are written as code points:
  uslugi, servisy; otzyvy, klienty o nas; kontakt, svyazat'sya, zayavka.
\<close>

definition services_keys :: "pystr list" where
  "services_keys =
     [ascii ''service'',
      [1091, 1089, 1083, 1091, 1075, 1080],
      [1089, 1077, 1088, 1074, 1080, 1089, 1099]]"

definition testimonial_keys :: "pystr list" where
  "testimonial_keys =
     [[1086, 1090, 1079, 1099, 1074, 1099],
      ascii ''testimonial'',
      ascii ''feedback'',
      [1082, 1083, 1080, 1077, 1085, 1090, 1099, 32, 1086, 32, 1085, 1072, 1089]]"

definition contact_keys :: "pystr list" where
  "contact_keys =
     [[1082, 1086, 1085, 1090, 1072, 1082, 1090],
      ascii ''contact'',
      [1089, 1074, 1103, 1079, 1072, 1090, 1100, 1089, 1103],
      [1079, 1072, 1103, 1074, 1082, 1072]]"

text \<open>
  Lines 80-85: \<^verbatim>\<open>for nav in soup.select('nav a[href]')\<close>, appending an item when the
  text is not empty.
\<close>

fun nav_loop :: "element list \<Rightarrow> nav_item list \<Rightarrow> nav_item list" where
  "nav_loop [] nav_items = nav_items"
| "nav_loop (nav # rest) nav_items =
     (let text = get_text [] (el nav);
          href = get_attr (ascii ''href'') (el nav)
      in if text \<noteq> [] then nav_loop rest (nav_items @ [\<lparr>label = text, href = href\<rparr>])
         else nav_loop rest nav_items)"

text \<open>
  Lines 95-98, 107-110 and 138-141: \<^verbatim>\<open>for node in siblings\<close>, appending the text of
  each node when it is not empty.
\<close>

fun texts_loop :: "page_element list \<Rightarrow> pystr list \<Rightarrow> pystr list" where
  "texts_loop [] block = block"
| "texts_loop (node # rest) block =
     (let t = get_text (ascii '' '') node
      in if t \<noteq> [] then texts_loop rest (block @ [t]) else texts_loop rest block)"

text \<open>
  Lines 103-111 and 134-142: \<^verbatim>\<open>for hdr in soup.find_all(names)\<close>; a heading whose
  lowercased text has one of the keywords gives a block, its title and the texts of
  its next 6 sibling tags joined by newlines. \<open>lower\<close> is \<^verbatim>\<open>str.lower\<close>.
\<close>

fun headings_loop ::
  "(pystr \<Rightarrow> pystr) \<Rightarrow> pystr list \<Rightarrow> element list \<Rightarrow> pystr list \<Rightarrow> pystr list" where
  "headings_loop lower keys [] blocks = blocks"
| "headings_loop lower keys (hdr # rest) blocks =
     (let title = get_text (ascii '' '') (el hdr)
      in if any_in keys (lower title) then
           headings_loop lower keys rest
             (blocks @ [join [10] (texts_loop (find_next_siblings 6 hdr) [title])])
         else headings_loop lower keys rest blocks)"

text \<open>
  Lines 117-123: \<^verbatim>\<open>for el in soup.find_all(text=True)\<close>. \<^verbatim>\<open>el.parent\<close> is
  \<^verbatim>\<open>None\<close> for an element with no parent, and \<^verbatim>\<open>None.get_text\<close> raises.
\<close>

fun testimonials_loop ::
  "(pystr \<Rightarrow> pystr) \<Rightarrow> element list \<Rightarrow> pystr list \<Rightarrow> py_error + pystr list" where
  "testimonials_loop lower [] testimonials = Inr testimonials"
| "testimonials_loop lower (e # rest) testimonials =
     (let txt = strip (string_of (el e));
          low = lower txt
      in if low \<noteq> [] \<and> any_in testimonial_keys low then
           (case parents e of
              [] \<Rightarrow> Inl AttributeError
            | parent # ps \<Rightarrow>
                (let parent_block = get_text (ascii '' '') parent
                 in if parent_block \<noteq> [] \<and> parent_block \<notin> set testimonials
                    then testimonials_loop lower rest (testimonials @ [parent_block])
                    else testimonials_loop lower rest testimonials))
         else testimonials_loop lower rest testimonials)"

text \<open>Lines 129-132: \<^verbatim>\<open>for form in soup.find_all('form')\<close>.\<close>

fun forms_loop :: "element list \<Rightarrow> pystr list \<Rightarrow> pystr list" where
  "forms_loop [] contact_texts = contact_texts"
| "forms_loop (form # rest) contact_texts =
     (let t = get_text (ascii '' '') (el form)
      in if t \<noteq> [] then forms_loop rest (contact_texts @ [t])
         else forms_loop rest contact_texts)"

text \<open>Lines 75-77: the document without its script, style and noscript tags.\<close>

definition removed_names :: "pystr list" where
  "removed_names = [ascii ''script'', ascii ''style'', ascii ''noscript'']"

definition soup_without_scripts :: "page_element list \<Rightarrow> page_element" where
  "soup_without_scripts parsed = BeautifulSoup (extract_tags removed_names parsed)"

text \<open>
  The body of \<^verbatim>\<open>extract_text_and_sections\<close> from line 75 on, on the contents of the
  parsed document.
\<close>

definition extract_from_soup ::
  "(pystr \<Rightarrow> pystr) \<Rightarrow> page_element list \<Rightarrow> py_error + extraction_result" where
  "extract_from_soup lower parsed =
     (let soup = soup_without_scripts parsed;
          nav_items = nav_loop (select_nav_a_href soup) [];
          sections1 =
            (case find_bs (ascii ''h1'') soup of
               None \<Rightarrow> Map.empty
             | Some h1 \<Rightarrow>
                 [ascii ''hero'' \<mapsto>
                    texts_loop (find_next_siblings 3 h1) [get_text (ascii '' '') (el h1)]]);
          services_blocks =
            headings_loop lower services_keys
              (find_all [ascii ''h2'', ascii ''h3''] soup) [];
          sections2 =
            (if services_blocks \<noteq> [] then sections1(ascii ''services'' \<mapsto> services_blocks)
             else sections1)
      in case testimonials_loop lower (find_all_text soup) [] of
           Inl err \<Rightarrow> Inl err
         | Inr testimonials \<Rightarrow>
            (let sections3 =
                   (if testimonials \<noteq> []
                    then sections2(ascii ''testimonials'' \<mapsto> take 10 testimonials)
                    else sections2);
                 contact_texts = forms_loop (find_all [ascii ''form''] soup) [];
                 contact_headings =
                   headings_loop lower contact_keys
                     (find_all [ascii ''h2'', ascii ''h3'', ascii ''h4''] soup) [];
                 contacts = contact_texts @ contact_headings;
                 sections4 =
                   (if contacts \<noteq> [] then sections3(ascii ''contact'' \<mapsto> contacts)
                    else sections3);
                 body = (case find_bs (ascii ''body'') soup of
                           Some b \<Rightarrow> el b | None \<Rightarrow> soup)
             in Inr \<lparr>raw_text = get_text [10] body,
                      sections = sections4,
                      navigation = nav_items\<rparr>))"

text \<open>
  \<^verbatim>\<open>extract_text_and_sections(html)\<close>. The parser of the library, line 73, is the
  parameter \<open>html_parser\<close>: it gives the contents of the document it builds, or \<open>Inl\<close>
  the exception it raises, which nothing in the function catches.
\<close>

definition extract_text_and_sections ::
  "(pystr \<Rightarrow> pystr) \<Rightarrow> (pystr \<Rightarrow> py_error + page_element list) \<Rightarrow> pystr
     \<Rightarrow> py_error + extraction_result" where
  "extract_text_and_sections lower html_parser html =
     (case html_parser html of
        Inl err \<Rightarrow> Inl err
      | Inr parsed \<Rightarrow> extract_from_soup lower parsed)"

section \<open>The import and content operations\<close>

record response =
  status_code :: int
  resp_text :: pystr

record import_request =
  url :: pystr
  language :: "pystr option"

text \<open>
  Modelled from the spec: the class \<^verbatim>\<open>SiteContent\<close> of \<^verbatim>\<open>schemas.py\<close>, which is not
  among the sources. The spec gives its fields: source_url a string, language, raw_html
  and raw_text optional strings, sections a mapping, navigation a sequence.
\<close>

record site_content =
  doc_source_url :: pystr
  doc_language :: "pystr option"
  doc_raw_html :: "pystr option"
  doc_raw_text :: "pystr option"
  doc_sections :: "pystr \<rightharpoonup> pystr list"
  doc_navigation :: "nav_item list"

text \<open>
  What a request ends with when it does not return: an \<^verbatim>\<open>HTTPException\<close> with its
  status code and detail, or an exception nothing catches.
\<close>

datatype api_error = HTTPException int pystr | Unhandled py_error

text \<open>Lines 171-178: the record built from the request, the response and the extraction.\<close>

definition site_content_of ::
  "import_request \<Rightarrow> response \<Rightarrow> extraction_result \<Rightarrow> site_content" where
  "site_content_of req resp extracted =
     \<lparr>doc_source_url = url req,
      doc_language = language req,
      doc_raw_html = Some (resp_text resp),
      doc_raw_text = Some (raw_text extracted),
      doc_sections = sections extracted,
      doc_navigation = navigation extracted\<rparr>"

text \<open>
  \<^verbatim>\<open>import_content(req)\<close>, lines 159-185. \<open>requests_get\<close> is the fetch
  \<^verbatim>\<open>requests.get(url, timeout=20)\<close>: a response, or \<open>Inl\<close> the text of the exception it
  raises. \<open>create_document\<close> is the write of the store on its state \<open>db\<close>: the inserted
  id, or \<open>Inl\<close> the text of the exception, and the state after it. An exception of the
  extraction, line 169, is caught by nothing.
\<close>

definition import_content ::
  "(pystr \<Rightarrow> pystr) \<Rightarrow> (pystr \<Rightarrow> py_error + page_element list)
     \<Rightarrow> (pystr \<Rightarrow> pystr + response)
     \<Rightarrow> ('db \<Rightarrow> site_content \<Rightarrow> (pystr + pystr) \<times> 'db)
     \<Rightarrow> import_request \<Rightarrow> 'db \<Rightarrow> (api_error + site_content) \<times> 'db" where
  "import_content lower html_parser requests_get create_document req db =
     (case requests_get (url req) of
        Inl e \<Rightarrow> (Inl (HTTPException 400 (ascii ''Failed to fetch URL: '' @ e)), db)
      | Inr resp \<Rightarrow>
          if status_code resp \<noteq> 200 then
            (Inl (HTTPException (status_code resp)
                    (ascii ''Upstream returned '' @ str_int (status_code resp))), db)
          else
            (case extract_text_and_sections lower html_parser (resp_text resp) of
               Inl err \<Rightarrow> (Inl (Unhandled err), db)
             | Inr extracted \<Rightarrow>
                 (let doc = site_content_of req resp extracted
                  in case create_document db doc of
                       (Inl e, db') \<Rightarrow>
                         (Inl (HTTPException 500 (ascii ''Database error: '' @ e)), db')
                     | (Inr inserted_id, db') \<Rightarrow> (Inr doc, db'))))"

text \<open>
  A stored document is a dictionary from field names to values; \<^verbatim>\<open>d.get(k)\<close> is
  \<^verbatim>\<open>None\<close> on a missing key and \<^verbatim>\<open>d.get(k, default)\<close> the default.
\<close>

datatype field_value =
  VNone | VStr pystr | VSections "pystr \<rightharpoonup> pystr list" | VNavigation "nav_item list"

type_synonym document = "pystr \<rightharpoonup> field_value"

definition dict_get :: "document \<Rightarrow> pystr \<Rightarrow> field_value \<Rightarrow> field_value" where
  "dict_get d k dflt = (case d k of None \<Rightarrow> dflt | Some v \<Rightarrow> v)"

text \<open>
  Modelled from the spec: the validation of the fields of \<^verbatim>\<open>SiteContent\<close>
  (\<^verbatim>\<open>schemas.py\<close>, not among the sources), by the types the spec gives them. \<open>None\<close>
  is a validation error.
\<close>

fun as_str :: "field_value \<Rightarrow> pystr option" where
  "as_str (VStr s) = Some s"
| "as_str v = None"

fun as_optional_str :: "field_value \<Rightarrow> pystr option option" where
  "as_optional_str VNone = Some None"
| "as_optional_str (VStr s) = Some (Some s)"
| "as_optional_str v = None"

fun as_sections :: "field_value \<Rightarrow> (pystr \<rightharpoonup> pystr list) option" where
  "as_sections (VSections m) = Some m"
| "as_sections v = None"

fun as_navigation :: "field_value \<Rightarrow> nav_item list option" where
  "as_navigation (VNavigation xs) = Some xs"
| "as_navigation v = None"

text \<open>Lines 195-202: one stored document made a \<^verbatim>\<open>SiteContent\<close>, or a validation error.\<close>

definition to_site_content :: "document \<Rightarrow> site_content option" where
  "to_site_content d =
     (case (as_str (dict_get d (ascii ''source_url'') (VStr [])),
            as_optional_str (dict_get d (ascii ''language'') VNone),
            as_optional_str (dict_get d (ascii ''raw_html'') VNone),
            as_optional_str (dict_get d (ascii ''raw_text'') VNone),
            as_sections (dict_get d (ascii ''sections'') (VSections Map.empty)),
            as_navigation (dict_get d (ascii ''navigation'') (VNavigation []))) of
        (Some u, Some l, Some h, Some t, Some s, Some n) \<Rightarrow>
          Some \<lparr>doc_source_url = u, doc_language = l, doc_raw_html = h,
                doc_raw_text = t, doc_sections = s, doc_navigation = n\<rparr>
      | _ \<Rightarrow> None)"

text \<open>Lines 193-203: \<^verbatim>\<open>for d in docs\<close>, stopping at the first exception.\<close>

fun content_loop :: "document list \<Rightarrow> site_content list \<Rightarrow> site_content list option" where
  "content_loop [] out = Some out"
| "content_loop (d # docs) out =
     (case to_site_content d of
        None \<Rightarrow> None
      | Some c \<Rightarrow> content_loop docs (out @ [c]))"

text \<open>
  \<^verbatim>\<open>get_latest_content(limit)\<close>, lines 189-205. \<open>get_documents\<close> is the read of the
  store: the documents, or \<open>Inl\<close> the text of the exception. Every exception of the body
  is answered with status 500.
\<close>

definition get_latest_content ::
  "('db \<Rightarrow> int \<Rightarrow> pystr + document list) \<Rightarrow> int \<Rightarrow> 'db \<Rightarrow> api_error + site_content list" where
  "get_latest_content get_documents limit db =
     (case get_documents db limit of
        Inl e \<Rightarrow> Inl (HTTPException 500 (ascii ''Database error: '' @ e))
      | Inr docs \<Rightarrow>
          (case content_loop docs [] of
             None \<Rightarrow> Inl (HTTPException 500 (ascii ''Database error: validation error''))
           | Some out \<Rightarrow> Inr out))"

text \<open>
  Modelled from the spec: the store of \<^verbatim>\<open>database.py\<close>, which is not among the sources.
  By the spec it persists an imported record and retrieves the most recent N records. Its
  state is the collection, the most recent document first; a record is stored as the
  dictionary of its fields.
\<close>

definition model_dump :: "site_content \<Rightarrow> document" where
  "model_dump c =
     [ascii ''source_url'' \<mapsto> VStr (doc_source_url c),
      ascii ''language'' \<mapsto> (case doc_language c of None \<Rightarrow> VNone | Some l \<Rightarrow> VStr l),
      ascii ''raw_html'' \<mapsto> (case doc_raw_html c of None \<Rightarrow> VNone | Some h \<Rightarrow> VStr h),
      ascii ''raw_text'' \<mapsto> (case doc_raw_text c of None \<Rightarrow> VNone | Some t \<Rightarrow> VStr t),
      ascii ''sections'' \<mapsto> VSections (doc_sections c),
      ascii ''navigation'' \<mapsto> VNavigation (doc_navigation c)]"

definition store_create_document ::
  "document list \<Rightarrow> site_content \<Rightarrow> (pystr + pystr) \<times> document list" where
  "store_create_document db c = (Inr (str_int (int (length db))), model_dump c # db)"

definition store_get_documents :: "document list \<Rightarrow> int \<Rightarrow> pystr + document list" where
  "store_get_documents db limit = Inr (take (nat limit) db)"

section \<open>The outputs, described\<close>

text \<open>
  What the loops of the extractor compute, written without loops over the elements of
  the document in document order.
\<close>

definition nav_entry :: "element \<Rightarrow> nav_item" where
  "nav_entry e = \<lparr>label = get_text [] (el e), href = get_attr (ascii ''href'') (el e)\<rparr>"

text \<open>An \<^verbatim>\<open>a\<close> tag below a \<^verbatim>\<open>nav\<close> tag, with a label that is not empty.\<close>

definition nav_anchor :: "element \<Rightarrow> bool" where
  "nav_anchor e \<longleftrightarrow>
     tag_named [ascii ''a''] (el e) \<and> list_ex (tag_named [ascii ''nav'']) (parents e)
     \<and> get_text [] (el e) \<noteq> []"

definition has_href :: "element \<Rightarrow> bool" where
  "has_href e \<longleftrightarrow> get_attr (ascii ''href'') (el e) \<noteq> None"

text \<open>The first tag with the name, in document order.\<close>

definition first_tag :: "pystr \<Rightarrow> page_element \<Rightarrow> element option" where
  "first_tag n soup =
     (case filter (\<lambda>e. tag_named [n] (el e)) (descendants_of soup) of
        [] \<Rightarrow> None | h # hs \<Rightarrow> Some h)"

text \<open>The texts, those that are not empty, of the next \<open>k\<close> sibling tags of an element.\<close>

definition sibling_texts :: "nat \<Rightarrow> element \<Rightarrow> pystr list" where
  "sibling_texts k e =
     filter (\<lambda>t. t \<noteq> [])
       (map (get_text (ascii '' '')) (take k (filter is_tag (next_siblings e))))"

definition hero_of :: "element \<Rightarrow> pystr list" where
  "hero_of h = get_text (ascii '' '') (el h) # sibling_texts 3 h"

definition heading_block :: "element \<Rightarrow> pystr" where
  "heading_block h = join [10] (get_text (ascii '' '') (el h) # sibling_texts 6 h)"

definition heading_blocks ::
  "(pystr \<Rightarrow> pystr) \<Rightarrow> pystr list \<Rightarrow> pystr list \<Rightarrow> page_element \<Rightarrow> pystr list" where
  "heading_blocks lower names keys soup =
     map heading_block
       (filter (\<lambda>e. tag_named names (el e)
                   \<and> any_in keys (lower (get_text (ascii '' '') (el e))))
          (descendants_of soup))"

definition form_blocks :: "page_element \<Rightarrow> pystr list" where
  "form_blocks soup =
     filter (\<lambda>t. t \<noteq> [])
       (map (\<lambda>e. get_text (ascii '' '') (el e))
          (filter (\<lambda>e. tag_named [ascii ''form''] (el e)) (descendants_of soup)))"

text \<open>Duplicates removed, the first occurrence of each kept in its place.\<close>

fun dedup_first :: "'a list \<Rightarrow> 'a list" where
  "dedup_first [] = []"
| "dedup_first (x # xs) = x # filter (\<lambda>y. y \<noteq> x) (dedup_first xs)"

text \<open>The text of the parent of an element (empty for an element with no parent).\<close>

definition parent_text :: "element \<Rightarrow> pystr" where
  "parent_text e = (case parents e of [] \<Rightarrow> [] | p # ps \<Rightarrow> get_text (ascii '' '') p)"

definition has_keyword :: "(pystr \<Rightarrow> pystr) \<Rightarrow> element \<Rightarrow> bool" where
  "has_keyword lower e = any_in testimonial_keys (lower (strip (string_of (el e))))"

text \<open>
  The candidate blocks of the testimonials: for every string of the document, of any
  class, whose lowercased stripped value has a keyword, the text of its parent, when
  that text is not empty.
\<close>

definition keyword_candidates :: "(pystr \<Rightarrow> pystr) \<Rightarrow> page_element \<Rightarrow> pystr list" where
  "keyword_candidates lower soup =
     filter (\<lambda>b. b \<noteq> [])
       (map parent_text
          (filter (\<lambda>e. is_string (el e) \<and> has_keyword lower e) (descendants_of soup)))"

definition nonempty :: "pystr list \<Rightarrow> pystr list option" where
  "nonempty xs = (if xs = [] then None else Some xs)"

text \<open>The dictionary \<^verbatim>\<open>sections\<close> with its four possible keys.\<close>

definition section_table ::
  "pystr list option \<Rightarrow> pystr list \<Rightarrow> pystr list \<Rightarrow> pystr list \<Rightarrow> pystr \<rightharpoonup> pystr list" where
  "section_table hero services testimonials contact k =
     (if k = ascii ''contact'' then nonempty contact
      else if k = ascii ''testimonials'' then nonempty testimonials
      else if k = ascii ''services'' then nonempty services
      else if k = ascii ''hero'' then hero
      else None)"

text \<open>One field of the result of the extractor, or the exception it raised.\<close>

definition result_section ::
  "pystr \<Rightarrow> py_error + extraction_result \<Rightarrow> py_error + pystr list option" where
  "result_section k res = map_sum id (\<lambda>r. sections r k) res"

definition result_navigation :: "py_error + extraction_result \<Rightarrow> py_error + nav_item list" where
  "result_navigation res = map_sum id navigation res"

definition result_raw_text :: "py_error + extraction_result \<Rightarrow> py_error + pystr" where
  "result_raw_text res = map_sum id raw_text res"

definition result_keys :: "py_error + extraction_result \<Rightarrow> py_error + pystr set" where
  "result_keys res = map_sum id (\<lambda>r. dom (sections r)) res"

text \<open>
  The navigation as the spec words it: an entry for every anchor below a \<^verbatim>\<open>nav\<close>
  with a label, whether or not it has an \<^verbatim>\<open>href\<close>.
\<close>

definition claimed_navigation :: "page_element \<Rightarrow> nav_item list" where
  "claimed_navigation soup = map nav_entry (filter nav_anchor (descendants_of soup))"

text \<open>
  The testimonials as the spec words them: the parent texts of the text nodes with a
  keyword, duplicates removed, the first 10. \<open>text_node\<close> says which nodes count as
  text nodes: every string, or only those of class \<^verbatim>\<open>NavigableString\<close> and
  \<^verbatim>\<open>CData\<close>.
\<close>

definition claimed_testimonials ::
  "(pystr \<Rightarrow> pystr) \<Rightarrow> (page_element \<Rightarrow> bool) \<Rightarrow> page_element \<Rightarrow> pystr list" where
  "claimed_testimonials lower text_node soup =
     take 10 (dedup_first
       (map parent_text
          (filter (\<lambda>e. text_node (el e) \<and> has_keyword lower e) (descendants_of soup))))"

text \<open>
  A document with every tag of the given names rewritten by \<open>f\<close>: its attributes and
  contents replaced.
\<close>

fun rewrite_tags ::
  "pystr list \<Rightarrow> (page_element \<Rightarrow> page_element) \<Rightarrow> page_element list \<Rightarrow> page_element list" where
  "rewrite_tags names f [] = []"
| "rewrite_tags names f (Str c s # rest) = Str c s # rewrite_tags names f rest"
| "rewrite_tags names f (Tag n a cs # rest) =
     (if n \<in> set names then
        Tag n (attrs (f (Tag n a cs))) (contents (f (Tag n a cs))) # rewrite_tags names f rest
      else Tag n a (rewrite_tags names f cs) # rewrite_tags names f rest)"

text \<open>A status code of the 400 class.\<close>

fun is_client_error :: "api_error \<Rightarrow> bool" where
  "is_client_error (HTTPException s d) = (400 \<le> s \<and> s < 500)"
| "is_client_error (Unhandled e) = False"

section \<open>Examples\<close>

text \<open>
  \<^verbatim>\<open>str.lower\<close> on text whose letters are ASCII or basic Cyrillic: the capitals
  A-Z and U+0410-U+042F moved 32 code points up.
\<close>

definition lower_basic :: "pystr \<Rightarrow> pystr" where
  "lower_basic s =
     map (\<lambda>c. if (65 \<le> c \<and> c \<le> 90) \<or> (1040 \<le> c \<and> c \<le> 1071) then c + 32 else c) s"

text \<open>The tag \<^verbatim>\<open><n>s</n>\<close>.\<close>

definition text_tag :: "string \<Rightarrow> pystr \<Rightarrow> page_element" where
  "text_tag n s = Tag (ascii n) [] [Str NavigableString s]"


text \<open>The document of \<^verbatim>\<open><script>evil()</script>Hello\<close>.\<close>

definition script_example :: "page_element list" where
  "script_example =
     [text_tag ''script'' (ascii ''evil()''), Str NavigableString (ascii ''Hello'')]"

text \<open>
  Two \<^verbatim>\<open>div\<close> tags with the same text, the Cyrillic word Otzyvy followed by
  \<^verbatim>\<open>: great service\<close>.
\<close>

definition great_service :: pystr where
  "great_service = [1054, 1090, 1079, 1099, 1074, 1099] @ ascii '': great service''"

definition twin_example :: "page_element list" where
  "twin_example = [text_tag ''div'' great_service, text_tag ''div'' great_service]"

text \<open>The document of \<^verbatim>\<open><nav><a href="/x">Home</a></nav>\<close>.\<close>

definition nav_example :: "page_element list" where
  "nav_example =
     [Tag (ascii ''nav'') []
        [Tag (ascii ''a'') [(ascii ''href'', ascii ''/x'')]
           [Str NavigableString (ascii ''Home'')]]]"

text \<open>The document of \<^verbatim>\<open><nav><a>About</a></nav>\<close>.\<close>

definition nav_without_href :: "page_element list" where
  "nav_without_href = [Tag (ascii ''nav'') [] [text_tag ''a'' (ascii ''About'')]]"

text \<open>
  The document of \<^verbatim>\<open><div><!--feedback--></div><div><!--feedback-->Hi</div>\<close>.
\<close>

definition comment_example :: "page_element list" where
  "comment_example =
     [Tag (ascii ''div'') [] [Str Comment (ascii ''feedback'')],
      Tag (ascii ''div'') []
        [Str Comment (ascii ''feedback''), Str NavigableString (ascii ''Hi'')]]"




text \<open>The document of \<^verbatim>\<open><template>feedback here</template>\<close>.\<close>

definition template_feedback_example :: "page_element list" where
  "template_feedback_example =
     [Tag (ascii ''template'') [] [Str TemplateString (ascii ''feedback here'')]]"

text \<open>
  The document of
  \<^verbatim>\<open><div> Feedback: x </div><div>feedback y</div><div> Feedback: x </div>\<close>.
\<close>

definition order_example :: "page_element list" where
  "order_example =
     [text_tag ''div'' (ascii '' Feedback: x ''), text_tag ''div'' (ascii ''feedback y''),
      text_tag ''div'' (ascii '' Feedback: x '')]"

text \<open>
  Eleven \<^verbatim>\<open>div\<close> tags with the texts \<^verbatim>\<open>feedback a\<close> to \<^verbatim>\<open>feedback k\<close>.
\<close>

definition eleven_blocks_example :: "page_element list" where
  "eleven_blocks_example =
     map (\<lambda>c. text_tag ''div'' (ascii ''feedback '' @ [c]))
       [97, 98, 99, 100, 101, 102, 103, 104, 105, 106, 107]"

text \<open>
  The document of
  \<^verbatim>\<open><h1>Welcome</h1><h2>Our Services</h2><p>Design</p><h3>Contact us</h3><p>mail</p><form>Send</form><div>Client feedback</div>\<close>,
  and the document of the text \<^verbatim>\<open>Hello\<close>.
\<close>

definition full_example :: "page_element list" where
  "full_example =
     [text_tag ''h1'' (ascii ''Welcome''), text_tag ''h2'' (ascii ''Our Services''),
      text_tag ''p'' (ascii ''Design''), text_tag ''h3'' (ascii ''Contact us''),
      text_tag ''p'' (ascii ''mail''), text_tag ''form'' (ascii ''Send''),
      text_tag ''div'' (ascii ''Client feedback'')]"

definition plain_example :: "page_element list" where
  "plain_example = [Str NavigableString (ascii ''Hello'')]"

text \<open>
  The parser of the library on the inputs of the examples: it rejects the marked section
  \<^verbatim>\<open><![foo[bar]]>\<close>, whose keyword it does not know, with \<^verbatim>\<open>ParserRejectedMarkup\<close>;
  it builds the document of \<^verbatim>\<open><h1>A</h1>\<close>; and for the empty string it builds the
  empty document. No other input is modelled: this table answers them with the empty
  document.
\<close>

definition library_parser :: "pystr \<Rightarrow> py_error + page_element list" where
  "library_parser html =
     (if html = ascii ''<![foo[bar]]>'' then Inl ParserRejectedMarkup
      else if html = ascii ''<h1>A</h1>'' then Inr [text_tag ''h1'' (ascii ''A'')]
      else Inr [])"

text \<open>A parser that builds the given document.\<close>

definition parser_giving :: "page_element list \<Rightarrow> pystr \<Rightarrow> py_error + page_element list" where
  "parser_giving doc html = Inr doc"

text \<open>
  A fetch that answers every URL with the given status and the page \<^verbatim>\<open><h1>A</h1>\<close>, a
  fetch that answers with status 200 and the page \<^verbatim>\<open><![foo[bar]]>\<close>, a fetch that
  raises, a write of the store that raises, and a request.
\<close>

definition upstream_status :: "int \<Rightarrow> pystr \<Rightarrow> pystr + response" where
  "upstream_status s u = Inr \<lparr>status_code = s, resp_text = ascii ''<h1>A</h1>''\<rparr>"

definition upstream_rejected_page :: "pystr \<Rightarrow> pystr + response" where
  "upstream_rejected_page u = Inr \<lparr>status_code = 200, resp_text = ascii ''<![foo[bar]]>''\<rparr>"

definition network_error :: "pystr \<Rightarrow> pystr + response" where
  "network_error u = Inl (ascii ''timed out'')"

definition failing_create_document ::
  "document list \<Rightarrow> site_content \<Rightarrow> (pystr + pystr) \<times> document list" where
  "failing_create_document db c = (Inl (ascii ''Database not available''), db)"

definition example_request :: import_request where
  "example_request = \<lparr>url = ascii ''http://example.com/'', language = None\<rparr>"


section \<open>The loops, characterised\<close>

text \<open>
  Each loop of the source with its accumulator is the map or filter it computes; the
  elements that \<^verbatim>\<open>find_all\<close> yields all have a parent, so the parent of a string is
  never \<^verbatim>\<open>None\<close>.
\<close>

lemma find_all_loop_unlimited: "find_all_loop m 0 gen rs = rs @ filter m gen"
  by (induction gen arbitrary: rs) auto

lemma find_all_loop_limited:
  "length rs < k \<Longrightarrow> find_all_loop m k gen rs = rs @ take (k - length rs) (filter m gen)"
proof (induction gen arbitrary: rs)
  case Nil
  then show ?case by simp
next
  case (Cons i gen)
  show ?case
  proof (cases "m i")
    case False
    with Cons show ?thesis by simp
  next
    case True
    show ?thesis
    proof (cases "Suc (length rs) < k")
      case True
      with \<open>m i\<close> Cons.IH [of "rs @ [i]"] Cons.prems show ?thesis
        by (simp add: Suc_diff_Suc take_Cons')
    next
      case False
      with Cons.prems have "k = Suc (length rs)" by simp
      with \<open>m i\<close> show ?thesis by simp
    qed
  qed
qed

lemma descendants_parents:
  "e \<in> set (descendants ps xs) \<Longrightarrow> ps \<noteq> [] \<Longrightarrow> parents e \<noteq> []"
  by (induction ps xs rule: descendants.induct) auto

lemma descendants_of_parents: "e \<in> set (descendants_of t) \<Longrightarrow> parents e \<noteq> []"
  by (cases t) (auto simp: descendants_of_def dest: descendants_parents)

lemma texts_loop_eq:
  "texts_loop ns block = block @ filter (\<lambda>t. t \<noteq> []) (map (get_text (ascii '' '')) ns)"
  by (induction ns arbitrary: block) (auto simp: Let_def)

lemma forms_loop_eq:
  "forms_loop es acc = acc @ filter (\<lambda>t. t \<noteq> []) (map (\<lambda>e. get_text (ascii '' '') (el e)) es)"
  by (induction es arbitrary: acc) (auto simp: Let_def)

lemma nav_loop_eq:
  "nav_loop es acc =
     acc @ map (\<lambda>e. \<lparr>label = get_text [] (el e), href = get_attr (ascii ''href'') (el e)\<rparr>)
             (filter (\<lambda>e. get_text [] (el e) \<noteq> []) es)"
  by (induction es arbitrary: acc) (auto simp: Let_def)

lemma headings_loop_eq:
  "headings_loop lower keys es acc =
     acc @ map (\<lambda>e. join [10] (texts_loop (find_next_siblings 6 e) [get_text (ascii '' '') (el e)]))
             (filter (\<lambda>e. any_in keys (lower (get_text (ascii '' '') (el e)))) es)"
  by (induction es arbitrary: acc) (auto simp: Let_def)

lemma any_in_testimonial_nonempty: "any_in testimonial_keys s \<Longrightarrow> s \<noteq> []"
  by (auto simp: any_in_def testimonial_keys_def ascii_def)

lemma filter_notin_neq:
  "pb \<in> set acc \<Longrightarrow>
   filter (\<lambda>x. x \<noteq> pb \<and> x \<notin> set acc) xs = filter (\<lambda>b. b \<notin> set acc) xs"
  by (induction xs) auto

lemma testimonials_loop_skip:
  "\<not> has_keyword lower e \<Longrightarrow>
   testimonials_loop lower (e # es) acc = testimonials_loop lower es acc"
  by (simp add: has_keyword_def Let_def)

lemma testimonials_loop_hit:
  assumes "has_keyword lower e" and "parents e \<noteq> []"
  shows "testimonials_loop lower (e # es) acc =
     (if parent_text e \<noteq> [] \<and> parent_text e \<notin> set acc
      then testimonials_loop lower es (acc @ [parent_text e])
      else testimonials_loop lower es acc)"
proof -
  from assms(2) obtain p ps where ps: "parents e = p # ps"
    by (cases "parents e") auto
  from assms(1) have "any_in testimonial_keys (lower (strip (string_of (el e))))"
    by (simp add: has_keyword_def)
  moreover from this have "lower (strip (string_of (el e))) \<noteq> []"
    by (rule any_in_testimonial_nonempty)
  ultimately show ?thesis
    by (simp add: Let_def ps parent_text_def)
qed

lemma testimonials_loop_eq:
  "\<forall>e\<in>set es. parents e \<noteq> [] \<Longrightarrow>
   testimonials_loop lower es acc =
     Inr (acc @ filter (\<lambda>b. b \<notin> set acc)
            (dedup_first (filter (\<lambda>b. b \<noteq> [])
               (map parent_text (filter (has_keyword lower) es)))))"
proof (induction es arbitrary: acc)
  case Nil
  then show ?case by simp
next
  case (Cons e es)
  have IH: "\<And>acc. testimonials_loop lower es acc =
     Inr (acc @ filter (\<lambda>b. b \<notin> set acc)
            (dedup_first (filter (\<lambda>b. b \<noteq> [])
               (map parent_text (filter (has_keyword lower) es)))))"
    using Cons by simp
  from Cons.prems have par: "parents e \<noteq> []" by simp
  show ?case
  proof (cases "has_keyword lower e")
    case False
    then show ?thesis
      by (simp del: testimonials_loop.simps add: testimonials_loop_skip IH)
  next
    case True
    note hit = testimonials_loop_hit [OF True par]
    consider (empty) "parent_text e = []"
      | (seen) "parent_text e \<noteq> []" "parent_text e \<in> set acc"
      | (new) "parent_text e \<noteq> []" "parent_text e \<notin> set acc"
      by blast
    then show ?thesis
    proof cases
      case empty
      with True show ?thesis
        by (simp del: testimonials_loop.simps add: hit IH)
    next
      case seen
      with True show ?thesis
        by (simp del: testimonials_loop.simps add: hit IH filter_notin_neq)
    next
      case new
      with True show ?thesis
        by (simp del: testimonials_loop.simps add: hit IH conj_commute)
    qed
  qed
qed

lemma testimonials_of_soup:
  "testimonials_loop lower (find_all_text soup) [] = Inr (dedup_first (keyword_candidates lower soup))"
proof -
  have "\<forall>e\<in>set (find_all_text soup). parents e \<noteq> []"
    by (auto simp: find_all_text_def find_all_loop_unlimited dest: descendants_of_parents)
  then show ?thesis
    by (simp add: testimonials_loop_eq keyword_candidates_def find_all_text_def
        find_all_loop_unlimited conj_commute)
qed

lemma find_next_siblings_eq:
  "0 < k \<Longrightarrow> find_next_siblings k e = take k (filter is_tag (next_siblings e))"
  by (simp add: find_next_siblings_def find_all_loop_limited)

lemma find_bs_eq: "find_bs n t = first_tag n t"
  by (simp add: find_bs_def first_tag_def find_all_loop_limited take_Suc split: list.splits)

lemma find_all_eq:
  "find_all names t = filter (\<lambda>e. tag_named names (el e)) (descendants_of t)"
  by (simp add: find_all_def find_all_loop_unlimited)

lemma hero_texts_eq:
  "texts_loop (find_next_siblings 3 h) [get_text (ascii '' '') (el h)] = hero_of h"
  by (simp add: texts_loop_eq find_next_siblings_eq hero_of_def sibling_texts_def)

lemma headings_eq:
  "headings_loop lower keys (find_all names soup) [] = heading_blocks lower names keys soup"
  by (simp add: headings_loop_eq find_all_eq heading_blocks_def heading_block_def
      texts_loop_eq find_next_siblings_eq sibling_texts_def)

lemma forms_eq: "forms_loop (find_all [ascii ''form''] soup) [] = form_blocks soup"
  by (simp add: forms_loop_eq find_all_eq form_blocks_def)

lemma navigation_eq:
  "nav_loop (select_nav_a_href soup) [] =
     map nav_entry (filter (\<lambda>e. nav_anchor e \<and> has_href e) (descendants_of soup))"
proof -
  have "(\<lambda>e. get_text [] (el e) \<noteq> [] \<and> tag_named [ascii ''a''] (el e)
            \<and> get_attr (ascii ''href'') (el e) \<noteq> None
            \<and> list_ex (tag_named [ascii ''nav'']) (parents e))
        = (\<lambda>e. nav_anchor e \<and> has_href e)"
    by (auto simp: nav_anchor_def has_href_def)
  then show ?thesis
    by (simp add: nav_loop_eq select_nav_a_href_def nav_entry_def [abs_def] conj_commute conj_left_commute)
qed

text \<open>The extractor in closed form: it returns, and each field is as described.\<close>

lemma section_keys_distinct:
  "ascii ''hero'' \<noteq> ascii ''services''" "ascii ''hero'' \<noteq> ascii ''testimonials''"
  "ascii ''hero'' \<noteq> ascii ''contact''" "ascii ''services'' \<noteq> ascii ''testimonials''"
  "ascii ''services'' \<noteq> ascii ''contact''" "ascii ''testimonials'' \<noteq> ascii ''contact''"
  by (simp_all add: ascii_def)

lemma extract_from_soup_eq:
  "extract_from_soup lower parsed =
     Inr \<lparr>raw_text =
             get_text [10]
               (case first_tag (ascii ''body'') (soup_without_scripts parsed) of
                  Some b \<Rightarrow> el b | None \<Rightarrow> soup_without_scripts parsed),
           sections =
             section_table
               (map_option hero_of (first_tag (ascii ''h1'') (soup_without_scripts parsed)))
               (heading_blocks lower [ascii ''h2'', ascii ''h3''] services_keys
                  (soup_without_scripts parsed))
               (take 10 (dedup_first (keyword_candidates lower (soup_without_scripts parsed))))
               (form_blocks (soup_without_scripts parsed)
                  @ heading_blocks lower [ascii ''h2'', ascii ''h3'', ascii ''h4''] contact_keys
                      (soup_without_scripts parsed)),
           navigation =
             map nav_entry
               (filter (\<lambda>e. nav_anchor e \<and> has_href e)
                  (descendants_of (soup_without_scripts parsed)))\<rparr>"
  unfolding extract_from_soup_def Let_def testimonials_of_soup find_bs_eq hero_texts_eq
    headings_eq forms_eq navigation_eq sum.case
  using section_keys_distinct section_keys_distinct [symmetric]
  by (auto simp: section_table_def nonempty_def fun_eq_iff split: option.splits)

lemma extract_from_soup_Inr: "\<exists>r. extract_from_soup lower parsed = Inr r"
  by (simp add: extract_from_soup_eq)

lemma extract_text_and_sections_parsed:
  "html_parser html = Inr parsed \<Longrightarrow>
   extract_text_and_sections lower html_parser html = extract_from_soup lower parsed"
  by (simp add: extract_text_and_sections_def)

lemma extract_text_and_sections_rejected:
  "html_parser html = Inl err \<Longrightarrow> extract_text_and_sections lower html_parser html = Inl err"
  by (simp add: extract_text_and_sections_def)

lemma section_table_lookup:
  "section_table h s t c (ascii ''hero'') = h"
  "section_table h s t c (ascii ''services'') = nonempty s"
  "section_table h s t c (ascii ''testimonials'') = nonempty t"
  "section_table h s t c (ascii ''contact'') = nonempty c"
  using section_keys_distinct section_keys_distinct [symmetric]
  by (simp_all add: section_table_def)


lemma extract_testimonials:
  "result_section (ascii ''testimonials'') (extract_from_soup lower parsed) =
     Inr (nonempty (take 10 (dedup_first (keyword_candidates lower (soup_without_scripts parsed)))))"
  by (simp add: result_section_def extract_from_soup_eq section_table_lookup)

lemma extract_navigation:
  "result_navigation (extract_from_soup lower parsed) =
     Inr (map nav_entry (filter (\<lambda>e. nav_anchor e \<and> has_href e)
            (descendants_of (soup_without_scripts parsed))))"
  by (simp add: result_navigation_def extract_from_soup_eq)

lemma extract_raw_text:
  "result_raw_text (extract_from_soup lower parsed) =
     Inr (get_text [10]
            (case first_tag (ascii ''body'') (soup_without_scripts parsed) of
               Some b \<Rightarrow> el b | None \<Rightarrow> soup_without_scripts parsed))"
  by (simp add: result_raw_text_def extract_from_soup_eq)

lemma extract_tags_rewrite:
  "extract_tags names (rewrite_tags names f xs) = extract_tags names xs"
  by (induction names f xs rule: rewrite_tags.induct) auto

lemma distinct_dedup_first: "distinct (dedup_first xs)"
  by (induction xs) auto

lemma dom_section_table:
  "dom (section_table h s t c) \<subseteq>
     {ascii ''hero'', ascii ''services'', ascii ''testimonials'', ascii ''contact''}"
  by (auto simp: section_table_def split: if_splits)

lemma ran_section_table:
  "[] \<notin> ran (section_table (map_option hero_of x) s t c)"
  by (auto simp: section_table_def ran_def nonempty_def hero_of_def split: if_splits)

lemma in_dom_section_table:
  "ascii ''hero'' \<in> dom (section_table h s t c) \<longleftrightarrow> h \<noteq> None"
  "ascii ''services'' \<in> dom (section_table h s t c) \<longleftrightarrow> s \<noteq> []"
  "ascii ''testimonials'' \<in> dom (section_table h s t c) \<longleftrightarrow> t \<noteq> []"
  "ascii ''contact'' \<in> dom (section_table h s t c) \<longleftrightarrow> c \<noteq> []"
  by (auto simp: dom_def section_table_lookup nonempty_def)

lemma field_names_distinct:
  "ascii ''source_url'' \<noteq> ascii ''language''" "ascii ''source_url'' \<noteq> ascii ''raw_html''"
  "ascii ''source_url'' \<noteq> ascii ''raw_text''" "ascii ''source_url'' \<noteq> ascii ''sections''"
  "ascii ''source_url'' \<noteq> ascii ''navigation''" "ascii ''language'' \<noteq> ascii ''raw_html''"
  "ascii ''language'' \<noteq> ascii ''raw_text''" "ascii ''language'' \<noteq> ascii ''sections''"
  "ascii ''language'' \<noteq> ascii ''navigation''" "ascii ''raw_html'' \<noteq> ascii ''raw_text''"
  "ascii ''raw_html'' \<noteq> ascii ''sections''" "ascii ''raw_html'' \<noteq> ascii ''navigation''"
  "ascii ''raw_text'' \<noteq> ascii ''sections''" "ascii ''raw_text'' \<noteq> ascii ''navigation''"
  "ascii ''sections'' \<noteq> ascii ''navigation''"
  by (simp_all add: ascii_def)

lemma to_site_content_model_dump: "to_site_content (model_dump c) = Some c"
  using field_names_distinct field_names_distinct [symmetric]
  by (simp add: to_site_content_def model_dump_def dict_get_def split: option.splits)

text \<open>The definitions that evaluate the examples.\<close>

lemmas eval_defs =
  ascii_def text_tag_def removed_names_def soup_without_scripts_def BeautifulSoup_def
  descendants_of_def first_tag_def hero_of_def sibling_texts_def get_text_def interesting_string_types_def default_string_types_def
  strip_def isspace_def nav_entry_def nav_anchor_def has_href_def keyword_candidates_def
  has_keyword_def parent_text_def any_in_def testimonial_keys_def services_keys_def
  contact_keys_def heading_blocks_def heading_block_def form_blocks_def section_table_def
  nonempty_def lower_basic_def

text \<open>The examples, evaluated.\<close>

lemma sample_page_extracted:
  "extract_text_and_sections lower_basic library_parser (ascii ''<h1>A</h1>'') =
     Inr \<lparr>raw_text = ascii ''A'', sections = [ascii ''hero'' \<mapsto> [ascii ''A'']],
           navigation = []\<rparr>"
proof -
  have "library_parser (ascii ''<h1>A</h1>'') = Inr [text_tag ''h1'' (ascii ''A'')]"
    by (simp add: library_parser_def ascii_def)
  moreover have "extract_from_soup lower_basic [text_tag ''h1'' (ascii ''A'')] =
      Inr \<lparr>raw_text = ascii ''A'', sections = [ascii ''hero'' \<mapsto> [ascii ''A'']],
            navigation = []\<rparr>"
    by (simp add: extract_from_soup_eq eval_defs fun_eq_iff)
  ultimately show ?thesis
    by (simp add: extract_text_and_sections_parsed)
qed


lemma navigation_values:
  "map nav_entry (filter (\<lambda>e. nav_anchor e \<and> has_href e)
     (descendants_of (soup_without_scripts nav_example))) =
   [\<lparr>label = ascii ''Home'', href = Some (ascii ''/x'')\<rparr>]"
  "map nav_entry (filter (\<lambda>e. nav_anchor e \<and> has_href e)
     (descendants_of (soup_without_scripts nav_without_href))) = []"
  by (simp_all add: nav_example_def nav_without_href_def eval_defs)

lemma nav_entries_all:
  "list_all (\<lambda>i. href i \<noteq> None \<and> label i \<noteq> [])
     (map nav_entry (filter (\<lambda>e. nav_anchor e \<and> has_href e) es))"
  by (induction es) (auto simp: nav_entry_def nav_anchor_def has_href_def)

lemma testimonial_values:
  "nonempty (take 10 (dedup_first
     (keyword_candidates lower_basic (soup_without_scripts twin_example)))) =
   Some [great_service]"
  "nonempty (take 10 (dedup_first
     (keyword_candidates lower_basic (soup_without_scripts template_feedback_example)))) =
   Some [ascii ''feedback here'']"
  "nonempty (take 10 (dedup_first
     (keyword_candidates lower_basic (soup_without_scripts order_example)))) =
   Some [ascii ''Feedback: x'', ascii ''feedback y'']"
  "nonempty (take 10 (dedup_first
     (keyword_candidates lower_basic (soup_without_scripts comment_example)))) =
   Some [ascii ''Hi'']"
  by (simp_all add: twin_example_def great_service_def template_feedback_example_def
      order_example_def comment_example_def eval_defs)

lemma eleven_blocks_value:
  "nonempty (take 10 (dedup_first
     (keyword_candidates lower_basic (soup_without_scripts eleven_blocks_example)))) =
   Some (map (\<lambda>c. ascii ''feedback '' @ [c])
           [97, 98, 99, 100, 101, 102, 103, 104, 105, 106])"
  by (simp add: eleven_blocks_example_def eval_defs)

lemma dom_section_table_eq:
  "dom (section_table h s t c) =
     (if h = None then {} else {ascii ''hero''})
     \<union> (if s = [] then {} else {ascii ''services''})
     \<union> (if t = [] then {} else {ascii ''testimonials''})
     \<union> (if c = [] then {} else {ascii ''contact''})"
  using section_keys_distinct section_keys_distinct [symmetric]
  by (auto simp: section_table_def nonempty_def dom_def split: if_splits)

lemma extract_keys:
  "result_keys (extract_from_soup lower parsed) =
     Inr ((if first_tag (ascii ''h1'') (soup_without_scripts parsed) = None then {}
           else {ascii ''hero''})
        \<union> (if heading_blocks lower [ascii ''h2'', ascii ''h3''] services_keys
                 (soup_without_scripts parsed) = [] then {}
            else {ascii ''services''})
        \<union> (if keyword_candidates lower (soup_without_scripts parsed) = [] then {}
            else {ascii ''testimonials''})
        \<union> (if form_blocks (soup_without_scripts parsed)
                 @ heading_blocks lower [ascii ''h2'', ascii ''h3'', ascii ''h4''] contact_keys
                     (soup_without_scripts parsed) = [] then {}
            else {ascii ''contact''}))"
proof -
  have "take 10 (dedup_first xs) = [] \<longleftrightarrow> xs = []" for xs :: "pystr list"
    by (cases xs) auto
  then show ?thesis
    by (simp add: result_keys_def extract_from_soup_eq dom_section_table_eq)
qed

lemma key_values:
  "result_keys (extract_from_soup lower_basic full_example) =
     Inr {ascii ''hero'', ascii ''services'', ascii ''testimonials'', ascii ''contact''}"
  "result_keys (extract_from_soup lower_basic plain_example) = Inr {}"
  "result_keys (extract_from_soup lower_basic template_feedback_example) =
     Inr {ascii ''testimonials''}"
  unfolding extract_keys
  by (simp_all add: full_example_def plain_example_def template_feedback_example_def
      eval_defs insert_commute)

section \<open>The claims\<close>

text \<open>
  C1, as the claim states it, fails: the parser of line 73 is called with no handler
  around it, and it rejects some markup. For \<^verbatim>\<open><![foo[bar]]>\<close> it raises
  \<^verbatim>\<open>ParserRejectedMarkup\<close>, and so does \<^verbatim>\<open>extract_text_and_sections\<close>.
\<close>

theorem parser_rejection_counterexample:
  "extract_text_and_sections lower_basic library_parser (ascii ''<![foo[bar]]>'') =
     Inl ParserRejectedMarkup"
  by (simp add: extract_text_and_sections_def library_parser_def)

text \<open>
  C1, amended. For every input that the parser accepts, whatever document it builds,
  \<^verbatim>\<open>extract_text_and_sections\<close> returns a result with its three fields; when the
  parser raises, the function raises the same exception. When the parser builds the
  empty document for the empty string the result has no text, no sections and no
  navigation; when it builds the one string of a text with no tags and no testimonial
  keyword, the result is that text stripped, with no sections and no navigation.
\<close>

theorem extract_text_and_sections_returns_when_parsed:
  "(html_parser html = Inr parsed \<longrightarrow>
      (\<exists>r. extract_text_and_sections lower html_parser html = Inr r))
   \<and> (html_parser html = Inl err \<longrightarrow>
      extract_text_and_sections lower html_parser html = Inl err)
   \<and> (html_parser [] = Inr [] \<longrightarrow>
      extract_text_and_sections lower html_parser [] =
        Inr \<lparr>raw_text = [], sections = Map.empty, navigation = []\<rparr>)
   \<and> (html_parser html = Inr [Str NavigableString html]
        \<and> \<not> any_in testimonial_keys (lower (strip html)) \<longrightarrow>
      extract_text_and_sections lower html_parser html =
        Inr \<lparr>raw_text = strip html, sections = Map.empty, navigation = []\<rparr>)"
proof (intro conjI impI)
  assume "html_parser html = Inr parsed"
  then show "\<exists>r. extract_text_and_sections lower html_parser html = Inr r"
    by (simp add: extract_text_and_sections_parsed extract_from_soup_Inr)
next
  assume "html_parser html = Inl err"
  then show "extract_text_and_sections lower html_parser html = Inl err"
    by (rule extract_text_and_sections_rejected)
next
  assume "html_parser [] = Inr []"
  then show "extract_text_and_sections lower html_parser [] =
      Inr \<lparr>raw_text = [], sections = Map.empty, navigation = []\<rparr>"
    by (simp add: extract_text_and_sections_parsed extract_from_soup_eq eval_defs fun_eq_iff)
next
  assume a: "html_parser html = Inr [Str NavigableString html]
      \<and> \<not> any_in testimonial_keys (lower (strip html))"
  have "extract_from_soup lower [Str NavigableString html] =
      Inr \<lparr>raw_text = strip html, sections = Map.empty, navigation = []\<rparr>"
    using a
    by (simp add: extract_from_soup_eq ascii_def text_tag_def removed_names_def
        soup_without_scripts_def BeautifulSoup_def descendants_of_def first_tag_def
        get_text_def interesting_string_types_def default_string_types_def
        nav_anchor_def has_href_def keyword_candidates_def has_keyword_def
        heading_blocks_def form_blocks_def section_table_def nonempty_def fun_eq_iff)
  with a show "extract_text_and_sections lower html_parser html =
      Inr \<lparr>raw_text = strip html, sections = Map.empty, navigation = []\<rparr>"
    by (simp add: extract_text_and_sections_parsed)
qed

theorem extract_text_and_sections_returns_when_parsed_witness:
  "(\<exists>r. extract_text_and_sections lower_basic library_parser (ascii ''<h1>A</h1>'') = Inr r)
   \<and> extract_text_and_sections lower_basic library_parser (ascii ''<![foo[bar]]>'') =
       Inl ParserRejectedMarkup
   \<and> extract_text_and_sections lower_basic library_parser [] =
       Inr \<lparr>raw_text = [], sections = Map.empty, navigation = []\<rparr>
   \<and> extract_text_and_sections lower_basic (parser_giving plain_example) (ascii ''Hello'') =
       Inr \<lparr>raw_text = ascii ''Hello'', sections = Map.empty, navigation = []\<rparr>"
proof -
  have 1: "library_parser (ascii ''<h1>A</h1>'') = Inr [text_tag ''h1'' (ascii ''A'')]"
    by (simp add: library_parser_def ascii_def)
  have 2: "library_parser (ascii ''<![foo[bar]]>'') = Inl ParserRejectedMarkup"
    by (simp add: library_parser_def)
  have 3: "library_parser [] = Inr []"
    by (simp add: library_parser_def ascii_def)
  have 4: "parser_giving plain_example (ascii ''Hello'') = Inr [Str NavigableString (ascii ''Hello'')]
      \<and> \<not> any_in testimonial_keys (lower_basic (strip (ascii ''Hello'')))"
    by (simp add: parser_giving_def plain_example_def any_in_def testimonial_keys_def
        lower_basic_def strip_def isspace_def ascii_def)
  have 5: "strip (ascii ''Hello'') = ascii ''Hello''"
    by (simp add: strip_def isspace_def ascii_def)
  from extract_text_and_sections_returns_when_parsed
         [of library_parser "ascii ''<h1>A</h1>''" "[text_tag ''h1'' (ascii ''A'')]"
            lower_basic] 1
  have a: "\<exists>r. extract_text_and_sections lower_basic library_parser (ascii ''<h1>A</h1>'') = Inr r"
    by blast
  from extract_text_and_sections_returns_when_parsed
         [of library_parser "ascii ''<![foo[bar]]>''" _ lower_basic ParserRejectedMarkup] 2
  have b: "extract_text_and_sections lower_basic library_parser (ascii ''<![foo[bar]]>'') =
       Inl ParserRejectedMarkup"
    by blast
  from extract_text_and_sections_returns_when_parsed [of library_parser _ _ lower_basic] 3
  have c: "extract_text_and_sections lower_basic library_parser [] =
       Inr \<lparr>raw_text = [], sections = Map.empty, navigation = []\<rparr>"
    by blast
  from extract_text_and_sections_returns_when_parsed
         [of "parser_giving plain_example" "ascii ''Hello''" _ lower_basic] 4 5
  have d: "extract_text_and_sections lower_basic (parser_giving plain_example) (ascii ''Hello'') =
       Inr \<lparr>raw_text = ascii ''Hello'', sections = Map.empty, navigation = []\<rparr>"
    by simp
  from a b c d show ?thesis by blast
qed

text \<open>
  C2, as the claim states it, fails: when the upstream answers 503 the import answers
  503, not 400.
\<close>

theorem upstream_status_counterexample:
  "fst (import_content lower_basic library_parser (upstream_status 503) store_create_document
          example_request []) =
     Inl (HTTPException 503 (ascii ''Upstream returned 503''))"
  by (simp add: import_content_def upstream_status_def str_int_def ascii_def)

text \<open>
  C2, amended. When the fetch raises, the import answers with status 400. When the
  upstream answers with a status other than 200, the import answers with that same
  status, and the detail names it. When the fetch succeeds with status 200, the page is
  extracted and the write of the record built from it raises, the import answers with
  status 500. When the parser rejects the page of a fetch with status 200, its exception
  is caught by nothing and the store is not written.
\<close>

theorem import_content_error_statuses:
  "(requests_get (url req) = Inl e \<longrightarrow>
      fst (import_content lower html_parser requests_get create_document req db) =
        Inl (HTTPException 400 (ascii ''Failed to fetch URL: '' @ e)))
   \<and> (requests_get (url req) = Inr resp \<and> status_code resp \<noteq> 200 \<longrightarrow>
      fst (import_content lower html_parser requests_get create_document req db) =
        Inl (HTTPException (status_code resp)
               (ascii ''Upstream returned '' @ str_int (status_code resp))))
   \<and> (requests_get (url req) = Inr resp \<and> status_code resp = 200
        \<and> extract_text_and_sections lower html_parser (resp_text resp) = Inr extracted
        \<and> fst (create_document db (site_content_of req resp extracted)) = Inl e \<longrightarrow>
      fst (import_content lower html_parser requests_get create_document req db) =
        Inl (HTTPException 500 (ascii ''Database error: '' @ e)))
   \<and> (requests_get (url req) = Inr resp \<and> status_code resp = 200
        \<and> html_parser (resp_text resp) = Inl err \<longrightarrow>
      import_content lower html_parser requests_get create_document req db =
        (Inl (Unhandled err), db))"
proof (intro conjI impI)
  assume "requests_get (url req) = Inl e"
  then show "fst (import_content lower html_parser requests_get create_document req db) =
        Inl (HTTPException 400 (ascii ''Failed to fetch URL: '' @ e))"
    by (simp add: import_content_def)
next
  assume "requests_get (url req) = Inr resp \<and> status_code resp \<noteq> 200"
  then show "fst (import_content lower html_parser requests_get create_document req db) =
        Inl (HTTPException (status_code resp)
               (ascii ''Upstream returned '' @ str_int (status_code resp)))"
    by (simp add: import_content_def)
next
  assume a: "requests_get (url req) = Inr resp \<and> status_code resp = 200
        \<and> extract_text_and_sections lower html_parser (resp_text resp) = Inr extracted
        \<and> fst (create_document db (site_content_of req resp extracted)) = Inl e"
  then obtain db' where
    "create_document db (site_content_of req resp extracted) = (Inl e, db')"
    by (metis prod.collapse)
  with a show "fst (import_content lower html_parser requests_get create_document req db) =
        Inl (HTTPException 500 (ascii ''Database error: '' @ e))"
    by (simp add: import_content_def)
next
  assume "requests_get (url req) = Inr resp \<and> status_code resp = 200
        \<and> html_parser (resp_text resp) = Inl err"
  then show "import_content lower html_parser requests_get create_document req db =
        (Inl (Unhandled err), db)"
    by (simp add: import_content_def extract_text_and_sections_rejected)
qed

theorem import_content_error_statuses_witness:
  "fst (import_content lower_basic library_parser network_error store_create_document
          example_request []) =
     Inl (HTTPException 400 (ascii ''Failed to fetch URL: timed out''))
   \<and> fst (import_content lower_basic library_parser (upstream_status 404)
            store_create_document example_request []) =
       Inl (HTTPException 404 (ascii ''Upstream returned 404''))
   \<and> fst (import_content lower_basic library_parser (upstream_status 200)
            failing_create_document example_request []) =
       Inl (HTTPException 500 (ascii ''Database error: Database not available''))
   \<and> import_content lower_basic library_parser upstream_rejected_page
        store_create_document example_request [] =
       (Inl (Unhandled ParserRejectedMarkup), [])"
proof -
  have 1: "network_error (url example_request) = Inl (ascii ''timed out'')"
    by (simp add: network_error_def)
  have 2: "upstream_status 404 (url example_request) =
      Inr \<lparr>status_code = 404, resp_text = ascii ''<h1>A</h1>''\<rparr>
    \<and> status_code \<lparr>status_code = 404, resp_text = ascii ''<h1>A</h1>''\<rparr> \<noteq> 200"
    by (simp add: upstream_status_def)
  have 3: "upstream_status 200 (url example_request) =
      Inr \<lparr>status_code = 200, resp_text = ascii ''<h1>A</h1>''\<rparr>
    \<and> status_code \<lparr>status_code = 200, resp_text = ascii ''<h1>A</h1>''\<rparr> = 200
    \<and> extract_text_and_sections lower_basic library_parser
         (resp_text \<lparr>status_code = 200, resp_text = ascii ''<h1>A</h1>''\<rparr>) =
        Inr \<lparr>raw_text = ascii ''A'', sections = [ascii ''hero'' \<mapsto> [ascii ''A'']],
              navigation = []\<rparr>
    \<and> fst (failing_create_document []
             (site_content_of example_request
                \<lparr>status_code = 200, resp_text = ascii ''<h1>A</h1>''\<rparr>
                \<lparr>raw_text = ascii ''A'', sections = [ascii ''hero'' \<mapsto> [ascii ''A'']],
                   navigation = []\<rparr>)) =
        Inl (ascii ''Database not available'')"
    by (simp add: upstream_status_def failing_create_document_def sample_page_extracted)
  have 4: "upstream_rejected_page (url example_request) =
      Inr \<lparr>status_code = 200, resp_text = ascii ''<![foo[bar]]>''\<rparr>
    \<and> status_code \<lparr>status_code = 200, resp_text = ascii ''<![foo[bar]]>''\<rparr> = 200
    \<and> library_parser (resp_text \<lparr>status_code = 200, resp_text = ascii ''<![foo[bar]]>''\<rparr>) =
        Inl ParserRejectedMarkup"
    by (simp add: upstream_rejected_page_def library_parser_def)
  have s: "str_int 404 = ascii ''404''"
    by (simp add: str_int_def ascii_def)
  from import_content_error_statuses
         [of network_error example_request "ascii ''timed out''" lower_basic library_parser
            store_create_document "[]"] 1
  have a: "fst (import_content lower_basic library_parser network_error store_create_document
          example_request []) =
     Inl (HTTPException 400 (ascii ''Failed to fetch URL: timed out''))"
    by (simp add: ascii_def)
  from import_content_error_statuses
         [of "upstream_status 404" example_request _ lower_basic library_parser
            store_create_document "[]"
            "\<lparr>status_code = 404, resp_text = ascii ''<h1>A</h1>''\<rparr>"] 2
  have b: "fst (import_content lower_basic library_parser (upstream_status 404)
            store_create_document example_request []) =
       Inl (HTTPException 404 (ascii ''Upstream returned 404''))"
    by (simp add: s) (simp add: ascii_def)
  from import_content_error_statuses
         [of "upstream_status 200" example_request "ascii ''Database not available''"
            lower_basic library_parser failing_create_document "[]"
            "\<lparr>status_code = 200, resp_text = ascii ''<h1>A</h1>''\<rparr>"
            "\<lparr>raw_text = ascii ''A'', sections = [ascii ''hero'' \<mapsto> [ascii ''A'']],
               navigation = []\<rparr>"] 3
  have c: "fst (import_content lower_basic library_parser (upstream_status 200)
            failing_create_document example_request []) =
       Inl (HTTPException 500 (ascii ''Database error: Database not available''))"
    by (simp add: ascii_def)
  from import_content_error_statuses
         [of upstream_rejected_page example_request _ lower_basic library_parser
            store_create_document "[]"
            "\<lparr>status_code = 200, resp_text = ascii ''<![foo[bar]]>''\<rparr>" _
            ParserRejectedMarkup] 4
  have d: "import_content lower_basic library_parser upstream_rejected_page
        store_create_document example_request [] =
       (Inl (Unhandled ParserRejectedMarkup), [])"
    by blast
  from a b c d show ?thesis by simp
qed

text \<open>
  C3. When the fetch returns status 404, \<^verbatim>\<open>import_content\<close> raises an error of the
  400 class whose detail contains \<^verbatim>\<open>404\<close>, and the store is left as it was whatever
  its write would do: \<^verbatim>\<open>create_document\<close> is not called.
\<close>

theorem upstream_404_is_client_error_without_store:
  assumes "requests_get (url req) = Inr resp" and "status_code resp = 404"
  shows "import_content lower html_parser requests_get create_document req db =
           (Inl (HTTPException 404 (ascii ''Upstream returned 404'')), db)
         \<and> is_client_error (HTTPException 404 (ascii ''Upstream returned 404''))
         \<and> contains (ascii ''Upstream returned 404'') (ascii ''404'')"
proof -
  have "str_int 404 = ascii ''404''"
    by (simp add: str_int_def ascii_def)
  with assms have "import_content lower html_parser requests_get create_document req db =
           (Inl (HTTPException 404 (ascii ''Upstream returned 404'')), db)"
    by (simp add: import_content_def ascii_def)
  moreover have "contains (ascii ''Upstream returned 404'') (ascii ''404'')"
    by (simp add: ascii_def)
  ultimately show ?thesis by simp
qed

theorem upstream_404_is_client_error_without_store_witness:
  "import_content lower_basic library_parser (upstream_status 404) store_create_document
     example_request [] =
     (Inl (HTTPException 404 (ascii ''Upstream returned 404'')), [])
   \<and> is_client_error (HTTPException 404 (ascii ''Upstream returned 404''))
   \<and> contains (ascii ''Upstream returned 404'') (ascii ''404'')"
proof -
  have 1: "upstream_status 404 (url example_request) =
      Inr \<lparr>status_code = 404, resp_text = ascii ''<h1>A</h1>''\<rparr>"
    by (simp add: upstream_status_def)
  have 2: "status_code \<lparr>status_code = 404, resp_text = ascii ''<h1>A</h1>''\<rparr> = 404"
    by simp
  show ?thesis
    using upstream_404_is_client_error_without_store
            [of "upstream_status 404" example_request, OF 1 2]
    by simp
qed

text \<open>
  C4, as the claim states it, fails: an anchor below a \<^verbatim>\<open>nav\<close> that has a label and
  no \<^verbatim>\<open>href\<close> attribute gives no entry, where the claim has an entry with a null
  \<^verbatim>\<open>href\<close>.
\<close>

theorem anchor_without_href_counterexample:
  "result_navigation (extract_from_soup lower_basic nav_without_href) = Inr []
   \<and> claimed_navigation (soup_without_scripts nav_without_href) =
       [\<lparr>label = ascii ''About'', href = None\<rparr>]"
proof -
  have "claimed_navigation (soup_without_scripts nav_without_href) =
      [\<lparr>label = ascii ''About'', href = None\<rparr>]"
    by (simp add: claimed_navigation_def nav_without_href_def eval_defs)
  then show ?thesis
    by (simp only: extract_navigation navigation_values simp_thms)
qed

text \<open>
  C4, amended. The navigation has one entry, label and \<^verbatim>\<open>href\<close>, for every anchor
  that is below a \<^verbatim>\<open>nav\<close> element, has an \<^verbatim>\<open>href\<close> attribute and has a label that
  is not empty, in document order and with no deduplication; the document is the one
  the parser built, once the script, style and noscript elements are removed. For
  \<^verbatim>\<open><nav><a href="/x">Home</a></nav>\<close> it is the one entry Home, /x.
\<close>

theorem navigation_is_nav_anchors_with_href:
  "(html_parser html = Inr parsed \<longrightarrow>
      result_navigation (extract_text_and_sections lower html_parser html) =
        Inr (map nav_entry
               (filter (\<lambda>e. nav_anchor e \<and> has_href e)
                  (descendants_of (soup_without_scripts parsed)))))
   \<and> result_navigation (extract_from_soup lower nav_example) =
       Inr [\<lparr>label = ascii ''Home'', href = Some (ascii ''/x'')\<rparr>]"
proof -
  have "html_parser html = Inr parsed \<longrightarrow>
      result_navigation (extract_text_and_sections lower html_parser html) =
        Inr (map nav_entry
               (filter (\<lambda>e. nav_anchor e \<and> has_href e)
                  (descendants_of (soup_without_scripts parsed))))"
    by (simp add: extract_text_and_sections_parsed extract_navigation)
  then show ?thesis
    by (simp only: extract_navigation navigation_values simp_thms)
qed

theorem navigation_is_nav_anchors_with_href_witness:
  "result_navigation
     (extract_text_and_sections lower_basic (parser_giving nav_example)
        (ascii ''<nav><a href=/x>Home</a></nav>'')) =
     Inr [\<lparr>label = ascii ''Home'', href = Some (ascii ''/x'')\<rparr>]"
proof -
  have "parser_giving nav_example (ascii ''<nav><a href=/x>Home</a></nav>'') = Inr nav_example"
    by (simp add: parser_giving_def)
  with navigation_is_nav_anchors_with_href
         [of "parser_giving nav_example" "ascii ''<nav><a href=/x>Home</a></nav>''"
            nav_example lower_basic]
  show ?thesis
    by (simp only: navigation_values simp_thms)
qed



text \<open>
  C6. What the script, style and noscript elements hold reaches no field of the result:
  whatever their attributes and contents are replaced with, the result is the same. For
  \<^verbatim>\<open><script>evil()</script>Hello\<close> the text does not contain \<^verbatim>\<open>evil\<close> and
  contains \<^verbatim>\<open>Hello\<close>.
\<close>

theorem removed_elements_leave_no_trace:
  "extract_from_soup lower (rewrite_tags removed_names f parsed) = extract_from_soup lower parsed
   \<and> (case result_raw_text (extract_from_soup lower script_example) of
        Inl err \<Rightarrow> False
      | Inr t \<Rightarrow> \<not> contains t (ascii ''evil'') \<and> contains t (ascii ''Hello''))"
proof -
  have "extract_from_soup lower (rewrite_tags removed_names f parsed) =
      extract_from_soup lower parsed"
    by (simp add: extract_from_soup_def soup_without_scripts_def extract_tags_rewrite)
  moreover have "get_text [10]
            (case first_tag (ascii ''body'') (soup_without_scripts script_example) of
               Some b \<Rightarrow> el b | None \<Rightarrow> soup_without_scripts script_example) = ascii ''Hello''"
    by (simp add: script_example_def eval_defs)
  moreover have "\<not> contains (ascii ''Hello'') (ascii ''evil'')
      \<and> contains (ascii ''Hello'') (ascii ''Hello'')"
    by (simp add: ascii_def)
  ultimately show ?thesis
    by (simp only: extract_raw_text sum.case simp_thms)
qed

text \<open>
  C7, as the claim states it, fails. In
  \<^verbatim>\<open><div><!--feedback--></div><div><!--feedback-->Hi</div>\<close> the only strings with a
  keyword are the two comments. The code gives the one block Hi. The claim gives the
  empty text of the first parent and Hi when comments count as text nodes, and no block
  at all when they do not.
\<close>

theorem testimonials_counterexample:
  "result_section (ascii ''testimonials'') (extract_from_soup lower_basic comment_example) =
     Inr (Some [ascii ''Hi''])
   \<and> claimed_testimonials lower_basic is_string (soup_without_scripts comment_example) =
       [[], ascii ''Hi'']
   \<and> claimed_testimonials lower_basic (string_class_in default_string_types)
        (soup_without_scripts comment_example) = []"
proof -
  have "claimed_testimonials lower_basic is_string (soup_without_scripts comment_example) =
       [[], ascii ''Hi'']"
    by (simp add: claimed_testimonials_def comment_example_def eval_defs)
  moreover have "claimed_testimonials lower_basic (string_class_in default_string_types)
      (soup_without_scripts comment_example) = []"
    by (simp add: claimed_testimonials_def comment_example_def eval_defs)
  ultimately show ?thesis
    by (simp only: extract_testimonials testimonial_values simp_thms)
qed

text \<open>
  C7, amended. The testimonials are the texts of the parents of the strings of the
  document, of any class (comments too), whose lowercased stripped value has a keyword,
  the empty texts left out, deduplicated by equality in first-seen order and cut to the
  first 10; the key is absent when there is none. The blocks are distinct. Two equal
  blocks give one entry; the string of a template gives the text of the template; the
  block is the text of the parent as written, trimmed, and the first of two equal blocks
  keeps its place; of eleven blocks the first ten are kept.
\<close>

theorem testimonials_are_first_ten_distinct_blocks:
  "(html_parser html = Inr parsed \<longrightarrow>
      result_section (ascii ''testimonials'')
        (extract_text_and_sections lower html_parser html) =
        Inr (nonempty (take 10 (dedup_first
               (keyword_candidates lower (soup_without_scripts parsed))))))
   \<and> distinct (take 10 (dedup_first (keyword_candidates lower (soup_without_scripts parsed))))
   \<and> result_section (ascii ''testimonials'') (extract_from_soup lower_basic twin_example) =
       Inr (Some [great_service])
   \<and> result_section (ascii ''testimonials'')
        (extract_from_soup lower_basic template_feedback_example) =
       Inr (Some [ascii ''feedback here''])
   \<and> result_section (ascii ''testimonials'') (extract_from_soup lower_basic order_example) =
       Inr (Some [ascii ''Feedback: x'', ascii ''feedback y''])
   \<and> result_section (ascii ''testimonials'')
        (extract_from_soup lower_basic eleven_blocks_example) =
       Inr (Some (map (\<lambda>c. ascii ''feedback '' @ [c])
                    [97, 98, 99, 100, 101, 102, 103, 104, 105, 106]))"
proof -
  have "html_parser html = Inr parsed \<longrightarrow>
      result_section (ascii ''testimonials'')
        (extract_text_and_sections lower html_parser html) =
        Inr (nonempty (take 10 (dedup_first
               (keyword_candidates lower (soup_without_scripts parsed)))))"
    by (simp add: extract_text_and_sections_parsed extract_testimonials)
  then show ?thesis
    by (simp only: extract_testimonials testimonial_values eleven_blocks_value distinct_take
        distinct_dedup_first simp_thms)
qed

theorem testimonials_are_first_ten_distinct_blocks_witness:
  "result_section (ascii ''testimonials'')
     (extract_text_and_sections lower_basic (parser_giving order_example)
        (ascii ''<div> Feedback: x </div><div>feedback y</div><div> Feedback: x </div>'')) =
     Inr (Some [ascii ''Feedback: x'', ascii ''feedback y''])"
proof -
  have "parser_giving order_example
      (ascii ''<div> Feedback: x </div><div>feedback y</div><div> Feedback: x </div>'') =
      Inr order_example"
    by (simp add: parser_giving_def)
  with testimonials_are_first_ten_distinct_blocks
         [of "parser_giving order_example"
            "ascii ''<div> Feedback: x </div><div>feedback y</div><div> Feedback: x </div>''"
            order_example lower_basic]
  show ?thesis
    by (simp only: testimonial_values simp_thms)
qed

text \<open>
  C8. The keys of \<^verbatim>\<open>sections\<close> are among hero, services, testimonials and contact;
  no key holds an empty list; and each key is present exactly when its heuristic found
  something: a first \<^verbatim>\<open>h1\<close>, a services heading, a testimonial candidate, a form
  with text or a contact heading. A page with all four has the four keys, a plain text
  has none, and a template with a keyword has the testimonials key alone.
\<close>

theorem section_keys_are_detected_categories:
  "(html_parser html = Inr parsed \<longrightarrow>
     (case extract_text_and_sections lower html_parser html of
        Inl err \<Rightarrow> False
      | Inr r \<Rightarrow>
          dom (sections r) \<subseteq>
            {ascii ''hero'', ascii ''services'', ascii ''testimonials'', ascii ''contact''}
          \<and> [] \<notin> ran (sections r)
          \<and> (ascii ''hero'' \<in> dom (sections r) \<longleftrightarrow>
               first_tag (ascii ''h1'') (soup_without_scripts parsed) \<noteq> None)
          \<and> (ascii ''services'' \<in> dom (sections r) \<longleftrightarrow>
               heading_blocks lower [ascii ''h2'', ascii ''h3''] services_keys
                 (soup_without_scripts parsed) \<noteq> [])
          \<and> (ascii ''testimonials'' \<in> dom (sections r) \<longleftrightarrow>
               keyword_candidates lower (soup_without_scripts parsed) \<noteq> [])
          \<and> (ascii ''contact'' \<in> dom (sections r) \<longleftrightarrow>
               form_blocks (soup_without_scripts parsed)
                 @ heading_blocks lower [ascii ''h2'', ascii ''h3'', ascii ''h4''] contact_keys
                     (soup_without_scripts parsed) \<noteq> [])))
   \<and> result_keys (extract_from_soup lower_basic full_example) =
       Inr {ascii ''hero'', ascii ''services'', ascii ''testimonials'', ascii ''contact''}
   \<and> result_keys (extract_from_soup lower_basic plain_example) = Inr {}
   \<and> result_keys (extract_from_soup lower_basic template_feedback_example) =
       Inr {ascii ''testimonials''}"
proof -
  have t: "take 10 (dedup_first xs) \<noteq> [] \<longleftrightarrow> xs \<noteq> []" for xs :: "pystr list"
    by (cases xs) auto
  have "html_parser html = Inr parsed \<longrightarrow>
     (case extract_text_and_sections lower html_parser html of
        Inl err \<Rightarrow> False
      | Inr r \<Rightarrow>
          dom (sections r) \<subseteq>
            {ascii ''hero'', ascii ''services'', ascii ''testimonials'', ascii ''contact''}
          \<and> [] \<notin> ran (sections r)
          \<and> (ascii ''hero'' \<in> dom (sections r) \<longleftrightarrow>
               first_tag (ascii ''h1'') (soup_without_scripts parsed) \<noteq> None)
          \<and> (ascii ''services'' \<in> dom (sections r) \<longleftrightarrow>
               heading_blocks lower [ascii ''h2'', ascii ''h3''] services_keys
                 (soup_without_scripts parsed) \<noteq> [])
          \<and> (ascii ''testimonials'' \<in> dom (sections r) \<longleftrightarrow>
               keyword_candidates lower (soup_without_scripts parsed) \<noteq> [])
          \<and> (ascii ''contact'' \<in> dom (sections r) \<longleftrightarrow>
               form_blocks (soup_without_scripts parsed)
                 @ heading_blocks lower [ascii ''h2'', ascii ''h3'', ascii ''h4''] contact_keys
                     (soup_without_scripts parsed) \<noteq> []))"
  proof
    assume p: "html_parser html = Inr parsed"
    show "case extract_text_and_sections lower html_parser html of
        Inl err \<Rightarrow> False
      | Inr r \<Rightarrow>
          dom (sections r) \<subseteq>
            {ascii ''hero'', ascii ''services'', ascii ''testimonials'', ascii ''contact''}
          \<and> [] \<notin> ran (sections r)
          \<and> (ascii ''hero'' \<in> dom (sections r) \<longleftrightarrow>
               first_tag (ascii ''h1'') (soup_without_scripts parsed) \<noteq> None)
          \<and> (ascii ''services'' \<in> dom (sections r) \<longleftrightarrow>
               heading_blocks lower [ascii ''h2'', ascii ''h3''] services_keys
                 (soup_without_scripts parsed) \<noteq> [])
          \<and> (ascii ''testimonials'' \<in> dom (sections r) \<longleftrightarrow>
               keyword_candidates lower (soup_without_scripts parsed) \<noteq> [])
          \<and> (ascii ''contact'' \<in> dom (sections r) \<longleftrightarrow>
               form_blocks (soup_without_scripts parsed)
                 @ heading_blocks lower [ascii ''h2'', ascii ''h3'', ascii ''h4''] contact_keys
                     (soup_without_scripts parsed) \<noteq> [])"
      unfolding extract_text_and_sections_parsed [of html_parser html parsed, OF p]
        extract_from_soup_eq sum.case extraction_result.simps
      by (simp only: dom_section_table ran_section_table in_dom_section_table t simp_thms
          option.map_disc_iff)
  qed
  then show ?thesis
    by (simp only: key_values simp_thms)
qed

theorem section_keys_are_detected_categories_witness:
  "(case extract_text_and_sections lower_basic library_parser (ascii ''<h1>A</h1>'') of
      Inl err \<Rightarrow> False
    | Inr r \<Rightarrow>
        dom (sections r) \<subseteq>
          {ascii ''hero'', ascii ''services'', ascii ''testimonials'', ascii ''contact''}
        \<and> [] \<notin> ran (sections r)
        \<and> ascii ''hero'' \<in> dom (sections r))"
proof -
  have p: "library_parser (ascii ''<h1>A</h1>'') = Inr [text_tag ''h1'' (ascii ''A'')]"
    by (simp add: library_parser_def ascii_def)
  have h: "first_tag (ascii ''h1'') (soup_without_scripts [text_tag ''h1'' (ascii ''A'')]) \<noteq> None"
    by (simp add: eval_defs)
  from section_keys_are_detected_categories
         [of library_parser "ascii ''<h1>A</h1>''" "[text_tag ''h1'' (ascii ''A'')]" lower_basic]
       p h
  show ?thesis
    by (auto split: sum.splits)
qed

text \<open>
  C9. After an import that succeeds, the content operation with its default limit 1
  returns exactly the record the import returned, every field equal. The store is the
  one modelled from the spec.
\<close>

theorem import_then_content_round_trip:
  assumes "import_content lower html_parser requests_get store_create_document req db =
             (Inr doc, db')"
  shows "get_latest_content store_get_documents 1 db' = Inr [doc]"
proof -
  from assms have "db' = model_dump doc # db"
    by (auto simp: import_content_def store_create_document_def Let_def
        split: sum.splits if_splits)
  then show ?thesis
    by (simp add: get_latest_content_def store_get_documents_def to_site_content_model_dump)
qed

theorem import_then_content_round_trip_witness:
  "import_content lower_basic library_parser (upstream_status 200) store_create_document
     example_request [] =
     (Inr \<lparr>doc_source_url = ascii ''http://example.com/'', doc_language = None,
           doc_raw_html = Some (ascii ''<h1>A</h1>''), doc_raw_text = Some (ascii ''A''),
           doc_sections = [ascii ''hero'' \<mapsto> [ascii ''A'']], doc_navigation = []\<rparr>,
      [model_dump
         \<lparr>doc_source_url = ascii ''http://example.com/'', doc_language = None,
           doc_raw_html = Some (ascii ''<h1>A</h1>''), doc_raw_text = Some (ascii ''A''),
           doc_sections = [ascii ''hero'' \<mapsto> [ascii ''A'']], doc_navigation = []\<rparr>])
   \<and> get_latest_content store_get_documents 1
        [model_dump
           \<lparr>doc_source_url = ascii ''http://example.com/'', doc_language = None,
             doc_raw_html = Some (ascii ''<h1>A</h1>''), doc_raw_text = Some (ascii ''A''),
             doc_sections = [ascii ''hero'' \<mapsto> [ascii ''A'']], doc_navigation = []\<rparr>] =
       Inr [\<lparr>doc_source_url = ascii ''http://example.com/'', doc_language = None,
              doc_raw_html = Some (ascii ''<h1>A</h1>''), doc_raw_text = Some (ascii ''A''),
              doc_sections = [ascii ''hero'' \<mapsto> [ascii ''A'']], doc_navigation = []\<rparr>]"
proof -
  have i: "import_content lower_basic library_parser (upstream_status 200)
      store_create_document example_request [] =
     (Inr \<lparr>doc_source_url = ascii ''http://example.com/'', doc_language = None,
           doc_raw_html = Some (ascii ''<h1>A</h1>''), doc_raw_text = Some (ascii ''A''),
           doc_sections = [ascii ''hero'' \<mapsto> [ascii ''A'']], doc_navigation = []\<rparr>,
      [model_dump
         \<lparr>doc_source_url = ascii ''http://example.com/'', doc_language = None,
           doc_raw_html = Some (ascii ''<h1>A</h1>''), doc_raw_text = Some (ascii ''A''),
           doc_sections = [ascii ''hero'' \<mapsto> [ascii ''A'']], doc_navigation = []\<rparr>])"
    by (simp add: import_content_def upstream_status_def sample_page_extracted
        store_create_document_def example_request_def site_content_of_def Let_def)
  from i import_then_content_round_trip [OF i] show ?thesis by simp
qed

text \<open>
  C10. Every entry of the navigation has an \<^verbatim>\<open>href\<close> that is not null and a label
  that is not empty; an anchor below a \<^verbatim>\<open>nav\<close> with no \<^verbatim>\<open>href\<close> attribute gives no
  entry, as in \<^verbatim>\<open><nav><a>About</a></nav>\<close>.
\<close>

theorem navigation_entries_have_href_and_label:
  "(html_parser html = Inr parsed \<longrightarrow>
      (case extract_text_and_sections lower html_parser html of
         Inl err \<Rightarrow> False
       | Inr r \<Rightarrow> list_all (\<lambda>i. href i \<noteq> None \<and> label i \<noteq> []) (navigation r)))
   \<and> result_navigation (extract_from_soup lower nav_without_href) = Inr []"
proof -
  have "html_parser html = Inr parsed \<longrightarrow>
      (case extract_text_and_sections lower html_parser html of
         Inl err \<Rightarrow> False
       | Inr r \<Rightarrow> list_all (\<lambda>i. href i \<noteq> None \<and> label i \<noteq> []) (navigation r))"
    using nav_entries_all
    by (simp add: extract_text_and_sections_parsed extract_from_soup_eq)
  then show ?thesis
    by (simp only: extract_navigation navigation_values simp_thms)
qed

theorem navigation_entries_have_href_and_label_witness:
  "(case extract_text_and_sections lower_basic (parser_giving nav_example)
           (ascii ''<nav><a href=/x>Home</a></nav>'') of
      Inl err \<Rightarrow> False
    | Inr r \<Rightarrow> list_all (\<lambda>i. href i \<noteq> None \<and> label i \<noteq> []) (navigation r))"
proof -
  have "parser_giving nav_example (ascii ''<nav><a href=/x>Home</a></nav>'') = Inr nav_example"
    by (simp add: parser_giving_def)
  with navigation_entries_have_href_and_label
         [of "parser_giving nav_example" "ascii ''<nav><a href=/x>Home</a></nav>''"
            nav_example lower_basic]
  show ?thesis by blast
qed

end
